theory Spec2Isabelle
  imports Main
begin

section \<open>Values, errors and the outside world\<close>

text \<open>
  The two scripts build Python dictionaries and lists of strings and \<open>None\<close> and hand
  them to \<open>json.dumps\<close>. A dictionary literal is an association list with its keys in
  the order the literal writes them; \<open>None\<close> is \<open>JNull\<close>.
\<close>

datatype json =
    JNull
  | JString string
  | JNumber int
  | JArray "json list"
  | JObject "(string \<times> json) list"

text \<open>
  The exception classes of the parsing library (\<open>pyx12.errors.X12Error\<close> and its
  kin), named as the specification's error taxonomy names them.
\<close>

datatype x12_error =
    MalformedHeaderError
  | TokenizeError nat
  | AmbiguousLoopTriggerError string "string list"
  | OrphanSegmentError string nat
  | UnsupportedGrammarError string

text \<open>
  What a call of one of the two functions can raise: \<open>FileNotFoundError(path)\<close>,
  the \<open>RuntimeError\<close> that \<open>x12_to_flat_json\<close> raises in place of a reader error
  (its message interpolates the path and the reader's error), and a library error that
  nothing catches.
\<close>

datatype py_error =
    FileNotFoundError string
  | RuntimeError string x12_error
  | X12Error x12_error

text \<open>
  A Python generator, as the \<open>for\<close> statement sees it: it is exhausted, it raises, or
  it yields a value and goes on.
\<close>

datatype 'a gen = Stop | Raise x12_error | Yield 'a "'a gen"

fun gen_list :: "'a gen \<Rightarrow> 'a list" where
  "gen_list Stop = []"
| "gen_list (Raise e) = []"
| "gen_list (Yield x g) = x # gen_list g"

fun gen_end :: "'a gen \<Rightarrow> x12_error option" where
  "gen_end Stop = None"
| "gen_end (Raise e) = Some e"
| "gen_end (Yield x g) = gen_end g"

fun gen_of_list :: "'a list \<Rightarrow> 'a gen" where
  "gen_of_list [] = Stop"
| "gen_of_list (x # xs) = Yield x (gen_of_list xs)"

text \<open>
  The world a script runs in: the regular files (path to content) and what has been
  printed on standard output.
\<close>

record world =
  files :: "string \<rightharpoonup> string"
  stdout :: string

section \<open>The library interface the scripts call\<close>

text \<open>
  \<open>pyx12\<close> is not part of the repository. The calls the scripts make are the fields of
  an interface: what \<open>X12ContextReader(param, errh, f)\<close> does on the content of the
  open file, the generator \<open>ctx.iter_segments(loop_id)\<close>, and \<open>node.get_value(path)\<close>
  and \<open>node.select(loop_id)\<close> on the nodes it yields.
\<close>

record ('c, 'n) x12context =
  X12ContextReader :: "string \<Rightarrow> x12_error + 'c"
  iter_segments :: "'c \<Rightarrow> string \<Rightarrow> 'n gen"
  get_value :: "'n \<Rightarrow> string \<Rightarrow> json"
  select :: "'n \<Rightarrow> string \<Rightarrow> 'n list"

text \<open>
  \<open>x12file.X12Reader(f)\<close>, which raises an \<open>X12Error\<close> or gives the generator of the
  segments, and \<open>seg.get_seg_id()\<close> and \<open>seg.values_iterator()\<close> on a segment.
\<close>

record 's x12reader =
  X12Reader :: "string \<Rightarrow> x12_error + 's gen"
  get_seg_id :: "'s \<Rightarrow> string"
  values_iterator :: "'s \<Rightarrow> json list"

section \<open>x12\_837p\_to\_claims\_json.py\<close>

text \<open>The inner loop \<open>for sl_loop in claim_loop.select("2400")\<close>, appending to \<open>service_lines\<close>.\<close>

fun service_lines_loop :: "('c, 'n) x12context \<Rightarrow> 'n list \<Rightarrow> json list \<Rightarrow> json list" where
  "service_lines_loop L [] service_lines = service_lines"
| "service_lines_loop L (sl_loop # rest) service_lines =
     (let procedure_code = get_value L sl_loop ''SV101'';
          line_charge = get_value L sl_loop ''SV102''
      in service_lines_loop L rest
           (service_lines @
              [JObject [(''procedure_code'', procedure_code), (''line_charge'', line_charge)]]))"

text \<open>
  The outer loop \<open>for claim_loop in ctx.iter_segments("2300")\<close>, appending to \<open>claims\<close>;
  \<open>continue\<close> when both values are \<open>None\<close>. An exception of the generator leaves the
  function, and \<open>claims\<close> with it.
\<close>

fun claims_loop :: "('c, 'n) x12context \<Rightarrow> 'n gen \<Rightarrow> json list \<Rightarrow> py_error + json list" where
  "claims_loop L Stop claims = Inr claims"
| "claims_loop L (Raise e) claims = Inl (X12Error e)"
| "claims_loop L (Yield claim_loop rest) claims =
     (let claim_id = get_value L claim_loop ''CLM01'';
          total_charge = get_value L claim_loop ''CLM02''
      in if claim_id = JNull \<and> total_charge = JNull then claims_loop L rest claims
         else
           let service_lines = service_lines_loop L (select L claim_loop ''2400'') []
           in claims_loop L rest
                (claims @
                   [JObject [(''claim_id'', claim_id), (''total_charge'', total_charge),
                             (''service_lines'', JArray service_lines)]]))"

text \<open>
  \<open>extract_claims_from_837p(path)\<close>: \<open>path.open("r")\<close> raises when there is no such
  file; the reader is made on the open file; the loop runs.
\<close>

definition extract_claims_from_837p ::
  "('c, 'n) x12context \<Rightarrow> world \<Rightarrow> string \<Rightarrow> py_error + json list" where
  "extract_claims_from_837p L w path =
     (case files w path of
        None \<Rightarrow> Inl (FileNotFoundError path)
      | Some f \<Rightarrow>
          (case X12ContextReader L f of
             Inl e \<Rightarrow> Inl (X12Error e)
           | Inr ctx \<Rightarrow> claims_loop L (iter_segments L ctx ''2300'') []))"

text \<open>
  The script's \<open>__main__\<close> block, after \<open>argparse\<close>: the input path and the optional
  \<open>-o\<close> path. An exception that nothing catches ends the process with status 1 before
  anything is written; otherwise \<open>json.dumps(claims, indent=2)\<close> (the parameter
  \<open>dumps\<close>) goes to the output file or, with a newline, to standard output.
\<close>

definition claims_main ::
  "('c, 'n) x12context \<Rightarrow> (json \<Rightarrow> string) \<Rightarrow> world \<Rightarrow> string \<Rightarrow> string option \<Rightarrow> nat \<times> world" where
  "claims_main L dumps w input output =
     (case extract_claims_from_837p L w input of
        Inl e \<Rightarrow> (1, w)
      | Inr claims \<Rightarrow>
          (let text = dumps (JArray claims)
           in case output of
                Some out \<Rightarrow> (0, w\<lparr>files := (files w)(out \<mapsto> text)\<rparr>)
              | None \<Rightarrow> (0, w\<lparr>stdout := stdout w @ text @ [CHR 0x0A]\<rparr>)))"

section \<open>x12\_to\_json\_flat.py\<close>

text \<open>The loop \<open>for seg in reader\<close>, appending one dictionary per segment.\<close>

fun segments_loop :: "'s x12reader \<Rightarrow> 's gen \<Rightarrow> json list \<Rightarrow> py_error + json list" where
  "segments_loop R Stop segments = Inr segments"
| "segments_loop R (Raise e) segments = Inl (X12Error e)"
| "segments_loop R (Yield seg rest) segments =
     (let seg_id = get_seg_id R seg;
          elements = values_iterator R seg
      in segments_loop R rest
           (segments @ [JObject [(''segment_id'', JString seg_id), (''elements'', JArray elements)]]))"

text \<open>
  \<open>x12_to_flat_json(path)\<close>: the \<open>is_file\<close> check, the reader made inside
  \<open>try\<close>/\<open>except X12Error\<close>, the loop, and the dictionary returned.
\<close>

definition x12_to_flat_json :: "'s x12reader \<Rightarrow> world \<Rightarrow> string \<Rightarrow> py_error + json" where
  "x12_to_flat_json R w path =
     (case files w path of
        None \<Rightarrow> Inl (FileNotFoundError path)
      | Some f \<Rightarrow>
          (case X12Reader R f of
             Inl e \<Rightarrow> Inl (RuntimeError path e)
           | Inr reader \<Rightarrow>
               (case segments_loop R reader [] of
                  Inl e \<Rightarrow> Inl e
                | Inr segments \<Rightarrow>
                    Inr (JObject [(''file'', JString path), (''segments'', JArray segments)]))))"

text \<open>
  The \<open>__main__\<close> block of the flat script, on the same pattern: \<open>json.dumps(data,
  indent=2)\<close> is written only after \<open>x12_to_flat_json\<close> has returned.
\<close>

definition flat_main ::
  "'s x12reader \<Rightarrow> (json \<Rightarrow> string) \<Rightarrow> world \<Rightarrow> string \<Rightarrow> string option \<Rightarrow> nat \<times> world" where
  "flat_main R dumps w input output =
     (case x12_to_flat_json R w input of
        Inl e \<Rightarrow> (1, w)
      | Inr data \<Rightarrow>
          (let text = dumps data
           in case output of
                Some out \<Rightarrow> (0, w\<lparr>files := (files w)(out \<mapsto> text)\<rparr>)
              | None \<Rightarrow> (0, w\<lparr>stdout := stdout w @ text @ [CHR 0x0A]\<rparr>)))"


section \<open>The parsing engine, from the specification\<close>

text \<open>
  Modelled from the spec: the Delimiters value of section 3 (segment terminator, element
  separator, sub-element separator, optional repetition separator).
\<close>

record delimiters =
  segment_terminator :: char
  element_separator :: char
  subelement_separator :: char
  repetition_separator :: "char option"

text \<open>
  Modelled from the spec: the fixed width of the interchange header. The specification
  gives no number; 106 is the width of the X12 \<open>ISA\<close> segment with its terminator.
\<close>

definition header_width :: nat where
  "header_width = 106"

text \<open>
  Modelled from the spec: the number of elements of the interchange header. The
  specification gives no number; the X12 \<open>ISA\<close> segment has sixteen, the last of them one
  character wide.
\<close>

definition header_elements :: nat where
  "header_elements = 16"

text \<open>
  Modelled from the spec: the text up to and including the \<open>n\<close>-th occurrence of a
  separator, if it has that many.
\<close>

fun through_separators :: "char \<Rightarrow> nat \<Rightarrow> string \<Rightarrow> string option" where
  "through_separators c 0 s = Some []"
| "through_separators c (Suc n) [] = None"
| "through_separators c (Suc n) (x # xs) =
     map_option ((#) x) (through_separators c (if x = c then n else Suc n) xs)"

text \<open>
  Modelled from the spec: the header segment of a stream (section 4.1), with the extent it
  has in the stream. The element separator is the character after the three-letter
  identifier; the header runs through the last of its element separators, the one
  character of its final element and the terminator that follows. A stream that ends
  before that is one unfinished header.
\<close>

definition header_of :: "string \<Rightarrow> string" where
  "header_of f =
     (if length f < 4 then f
      else (case through_separators (f ! 3) header_elements f of
              None \<Rightarrow> f
            | Some prefix \<Rightarrow> take (length prefix + 2) f))"

text \<open>
  Modelled from the spec: whether two of the separators the header declares coincide
  (section 4.1). The element separator follows the three-letter identifier, the
  sub-element separator is the last field, the terminator follows it.
\<close>

definition separators_coincide :: "string \<Rightarrow> bool" where
  "separators_coincide h =
     (let ele = h ! 3; sub = h ! (header_width - 2); term = h ! (header_width - 1)
      in ele = sub \<or> ele = term \<or> sub = term)"

text \<open>
  Modelled from the spec: the Delimiter Detector of section 4.1, on the header segment.
\<close>

definition detect_delimiters :: "string \<Rightarrow> x12_error + delimiters" where
  "detect_delimiters h =
     (if length h \<noteq> header_width then Inl MalformedHeaderError
      else if separators_coincide h then Inl MalformedHeaderError
      else Inr \<lparr>segment_terminator = h ! (header_width - 1),
                element_separator = h ! 3,
                subelement_separator = h ! (header_width - 2),
                repetition_separator = None\<rparr>)"

text \<open>
  Modelled from the spec: Segment and Element of section 3.
\<close>

datatype element = Plain string | Composite "string list"

record segment =
  seg_id :: string
  elements :: "element list"

text \<open>
  Modelled from the spec: splitting a chunk on a separator (section 4.2); a chunk
  without the separator is one piece.
\<close>

fun split_on :: "char \<Rightarrow> string \<Rightarrow> string list" where
  "split_on c [] = [[]]"
| "split_on c (x # xs) =
     (if x = c then [] # split_on c xs
      else (case split_on c xs of
              [] \<Rightarrow> [[x]]
            | piece # pieces \<Rightarrow> (x # piece) # pieces))"

text \<open>
  Modelled from the spec: the whitespace and line-ending artifacts the tokenizer trims
  from both ends of a chunk (section 4.2).
\<close>

definition is_space :: "char \<Rightarrow> bool" where
  "is_space c = (c = CHR '' '' \<or> c = CHR 0x0A \<or> c = CHR 0x0D \<or> c = CHR 0x09)"

definition trim :: "string \<Rightarrow> string" where
  "trim s = rev (dropWhile is_space (rev (dropWhile is_space s)))"

text \<open>
  Modelled from the spec: an element holding the sub-element separator is a composite
  (section 4.2).
\<close>

definition parse_element :: "delimiters \<Rightarrow> string \<Rightarrow> element" where
  "parse_element ds s =
     (if subelement_separator ds \<in> set s then Composite (split_on (subelement_separator ds) s)
      else Plain s)"

text \<open>
  Modelled from the spec: one trimmed chunk as a Segment: the identifier, then the
  elements in order (section 4.2).
\<close>

definition parse_segment :: "delimiters \<Rightarrow> string \<Rightarrow> segment" where
  "parse_segment ds chunk =
     (case split_on (element_separator ds) chunk of
        [] \<Rightarrow> \<lparr>seg_id = [], elements = []\<rparr>
      | ident # rest \<Rightarrow> \<lparr>seg_id = ident, elements = map (parse_element ds) rest\<rparr>)"

text \<open>
  Modelled from the spec: the Segment Tokenizer of section 4.2, as the lazy sequence it
  produces. \<open>offset\<close> is where the current chunk starts and \<open>chunk\<close> what has been read of
  it. A chunk longer than \<open>max_len\<close>, and a fragment that is not whitespace and has no
  terminator at the end of the stream, raise a TokenizeError with that offset.
\<close>

fun tokenize :: "delimiters \<Rightarrow> nat \<Rightarrow> nat \<Rightarrow> string \<Rightarrow> string \<Rightarrow> segment gen" where
  "tokenize ds max_len offset chunk [] =
     (if trim chunk = [] then Stop else Raise (TokenizeError offset))"
| "tokenize ds max_len offset chunk (c # cs) =
     (if c = segment_terminator ds
      then Yield (parse_segment ds (trim chunk))
             (tokenize ds max_len (offset + length chunk + 1) [] cs)
      else if max_len < length chunk + 1 then Raise (TokenizeError offset)
      else tokenize ds max_len offset (chunk @ [c]) cs)"

text \<open>
  Modelled from the spec: LoopDefinition of section 3. The qualifier of a trigger is a
  position in the segment and the value required there.
\<close>

record loop_definition =
  def_id :: string
  def_parent :: "string option"
  trigger_segment :: string
  trigger_qualifier :: "(nat \<times> string) option"
  min_occurs :: nat
  max_occurs :: "nat option"
  child_ids :: "string list"

text \<open>
  Modelled from the spec: LoopNode of section 3: identifier, occurrence index, and the
  children in file order, each a Segment or a nested LoopNode. The parent link is a
  relation for traversal only and the tree does without it.
\<close>

datatype loop_node = LoopNode (loop_id: string) (occurrence: nat) (children: "child list")
  and child = SegmentChild segment | LoopChild loop_node

text \<open>
  Modelled from the spec: \<open>loopsOf(node, loopId)\<close> of section 4.4: the node itself and
  its descendants, depth first in file order, that carry the identifier.
\<close>

fun loopsOf :: "loop_node \<Rightarrow> string \<Rightarrow> loop_node list"
  and loopsOf_child :: "child \<Rightarrow> string \<Rightarrow> loop_node list" where
  "loopsOf (LoopNode lid occ cs) q =
     (if lid = q then [LoopNode lid occ cs] else []) @ concat (map (\<lambda>c. loopsOf_child c q) cs)"
| "loopsOf_child (SegmentChild s) q = []"
| "loopsOf_child (LoopChild n) q = loopsOf n q"


text \<open>
  Modelled from the spec: the element at a position of a segment, counted from 1 as X12
  counts them (\<open>CLM01\<close> is the first element after the identifier); absent beyond the
  segment's elements.
\<close>

definition element_at :: "segment \<Rightarrow> nat \<Rightarrow> element option" where
  "element_at s i =
     (if i = 0 \<or> length (elements s) < i then None else Some (elements s ! (i - 1)))"

text \<open>
  Modelled from the spec: the sub-element at a position of an element, counted from 1;
  only a composite has sub-elements.
\<close>

fun subelement_at :: "element \<Rightarrow> nat \<Rightarrow> element option" where
  "subelement_at (Plain v) j = None"
| "subelement_at (Composite vs) j =
     (if j = 0 \<or> length vs < j then None else Some (Plain (vs ! (j - 1))))"

text \<open>
  Modelled from the spec: the direct segment children of a node, in file order.
\<close>

fun direct_segments :: "child list \<Rightarrow> segment list" where
  "direct_segments [] = []"
| "direct_segments (SegmentChild s # cs) = s # direct_segments cs"
| "direct_segments (LoopChild n # cs) = direct_segments cs"

text \<open>
  Modelled from the spec: \<open>valueAt(node, segmentId, elementIndex[, subIndex])\<close> of
  section 4.4: the first direct segment child with the identifier, then the element, then
  the sub-element when a sub-index is given; \<open>None\<close> is the explicit absent value.
\<close>

definition valueAt :: "loop_node \<Rightarrow> string \<Rightarrow> nat \<Rightarrow> nat option \<Rightarrow> element option" where
  "valueAt node segmentId elementIndex subIndex =
     (case find (\<lambda>s. seg_id s = segmentId) (direct_segments (children node)) of
        None \<Rightarrow> None
      | Some s \<Rightarrow>
          (case element_at s elementIndex of
             None \<Rightarrow> None
           | Some e \<Rightarrow> (case subIndex of None \<Rightarrow> Some e | Some j \<Rightarrow> subelement_at e j)))"

text \<open>
  Modelled from the spec: an element in the output formats of section 6: a string, or the
  list of its sub-elements.
\<close>

fun element_json :: "element \<Rightarrow> json" where
  "element_json (Plain v) = JString v"
| "element_json (Composite vs) = JArray (map JString vs)"

text \<open>
  Modelled from the spec: the path strings of the scripts' \<open>get_value\<close> calls name what
  \<open>valueAt\<close> takes: the segment identifier, two digits for the element and, after a
  dash, the sub-index (\<open>CLM01\<close>, \<open>CLM05-1\<close>).
\<close>

definition is_digit :: "char \<Rightarrow> bool" where
  "is_digit c = (c \<in> set ''0123456789'')"

definition decimal :: "string \<Rightarrow> nat" where
  "decimal s = foldl (\<lambda>a c. 10 * a + (of_char c - 48)) 0 s"

definition parse_path :: "string \<Rightarrow> (string \<times> nat \<times> nat option) option" where
  "parse_path p =
     (let main = takeWhile (\<lambda>c. c \<noteq> CHR ''-'') p;
          sub = drop (Suc (length main)) p;
          ident = take (length main - 2) main;
          num = drop (length main - 2) main
      in if length main < 4 \<or> \<not> list_all is_digit num \<or> \<not> list_all is_digit sub then None
         else Some (ident, decimal num, if sub = [] then None else Some (decimal sub)))"

text \<open>
  Modelled from the spec: \<open>node.get_value(path)\<close> as \<open>valueAt\<close>, with absence as
  \<open>None\<close> (section 7: absence flows through as null).
\<close>

definition path_value :: "loop_node \<Rightarrow> string \<Rightarrow> json" where
  "path_value node p =
     (case parse_path p of
        None \<Rightarrow> JNull
      | Some (segmentId, elementIndex, subIndex) \<Rightarrow>
          (case valueAt node segmentId elementIndex subIndex of
             None \<Rightarrow> JNull
           | Some e \<Rightarrow> element_json e))"

text \<open>
  Modelled from the spec: step 1 of the Loop Hierarchy Builder (section 4.3): a
  definition's trigger matches a segment by identifier and, when it has one, by the
  qualifier value.
\<close>

definition trigger_matches :: "loop_definition \<Rightarrow> segment \<Rightarrow> bool" where
  "trigger_matches d s =
     (trigger_segment d = seg_id s \<and>
      (case trigger_qualifier d of
         None \<Rightarrow> True
       | Some (i, v) \<Rightarrow> element_at s i = Some (Plain v)))"

text \<open>
  Modelled from the spec: the implicit root of the tree; a definition without a parent
  hangs under it.
\<close>

definition root_id :: string where
  "root_id = ''root''"

definition append_child :: "loop_node \<Rightarrow> child \<Rightarrow> loop_node" where
  "append_child n c = LoopNode (loop_id n) (occurrence n) (children n @ [c])"

text \<open>
  Modelled from the spec: the stack of open loops, innermost first, the root last. An
  open node is appended to its parent when it is closed, which keeps the children in file
  order. \<open>pop_loops k\<close> closes the \<open>k\<close> innermost loops.
\<close>

fun pop_loops :: "nat \<Rightarrow> loop_node list \<Rightarrow> loop_node list" where
  "pop_loops (Suc k) (n # p # stack) = pop_loops k (append_child p (LoopChild n) # stack)"
| "pop_loops k stack = stack"

text \<open>
  Modelled from the spec: how far down the open path a definition's parent is: the
  number of loops to close before the parent is on top. The root is the parent of a
  definition without one.
\<close>

fun index_of :: "string \<Rightarrow> loop_node list \<Rightarrow> nat option" where
  "index_of p [] = None"
| "index_of p [r] = None"
| "index_of p (n # stack) =
     (if loop_id n = p then Some 0 else map_option Suc (index_of p stack))"

definition open_index :: "string option \<Rightarrow> loop_node list \<Rightarrow> nat option" where
  "open_index parent stack =
     (case parent of
        None \<Rightarrow> (if stack = [] then None else Some (length stack - 1))
      | Some p \<Rightarrow> index_of p stack)"

text \<open>
  Modelled from the spec: step 3 of the builder: the candidates whose parent is on the
  open path, each with the number of loops to close; the deepest are those that close
  the fewest.
\<close>

definition viable_candidates ::
  "loop_definition list \<Rightarrow> loop_node list \<Rightarrow> segment \<Rightarrow> (nat \<times> loop_definition) list" where
  "viable_candidates grammar stack s =
     concat (map (\<lambda>d. case open_index (def_parent d) stack of
                         None \<Rightarrow> []
                       | Some k \<Rightarrow> [(k, d)])
                 (filter (\<lambda>d. trigger_matches d s) grammar))"

definition deepest_candidates :: "(nat \<times> loop_definition) list \<Rightarrow> (nat \<times> loop_definition) list" where
  "deepest_candidates viable =
     filter (\<lambda>kd. fst kd = fold min (map fst viable) (fst (hd viable))) viable"

text \<open>
  Modelled from the spec: the tie-break of step 3: one candidate at the deepest level is
  selected; among several, the one whose trigger has a qualifier, if it is the only one.
\<close>

definition select_candidate :: "(nat \<times> loop_definition) list \<Rightarrow> (nat \<times> loop_definition) option" where
  "select_candidate tied =
     (case tied of
        [kd] \<Rightarrow> Some kd
      | _ \<Rightarrow> (case filter (\<lambda>kd. trigger_qualifier (snd kd) \<noteq> None) tied of
                [kd] \<Rightarrow> Some kd
              | _ \<Rightarrow> None))"

text \<open>
  Modelled from the spec: the occurrence index of a new loop: its ordinal among the
  children of its parent with the same identifier.
\<close>

fun same_id_loops :: "string \<Rightarrow> child list \<Rightarrow> nat" where
  "same_id_loops lid [] = 0"
| "same_id_loops lid (SegmentChild s # cs) = same_id_loops lid cs"
| "same_id_loops lid (LoopChild n # cs) =
     (if loop_id n = lid then Suc (same_id_loops lid cs) else same_id_loops lid cs)"

text \<open>
  Modelled from the spec: steps 2 to 4 of the builder for one segment. A segment that
  triggers nothing goes to the innermost open loop (the root is always open). A trigger
  none of whose parents is open cannot be placed (OrphanSegmentError, with the segment's
  position in the stream).
\<close>

definition builder_step ::
  "loop_definition list \<Rightarrow> loop_node list \<Rightarrow> nat \<Rightarrow> segment \<Rightarrow> x12_error + loop_node list" where
  "builder_step grammar stack pos s =
     (if filter (\<lambda>d. trigger_matches d s) grammar = []
      then (case stack of
              [] \<Rightarrow> Inl (OrphanSegmentError (seg_id s) pos)
            | inner # below \<Rightarrow> Inr (append_child inner (SegmentChild s) # below))
      else
        (let viable = viable_candidates grammar stack s
         in if viable = [] then Inl (OrphanSegmentError (seg_id s) pos)
            else
              (case select_candidate (deepest_candidates viable) of
                 None \<Rightarrow>
                   Inl (AmbiguousLoopTriggerError (seg_id s)
                          (map (\<lambda>kd. def_id (snd kd)) (deepest_candidates viable)))
               | Some (k, d) \<Rightarrow>
                   (case pop_loops k stack of
                      [] \<Rightarrow> Inl (OrphanSegmentError (seg_id s) pos)
                    | inner # below \<Rightarrow>
                        Inr (LoopNode (def_id d) (Suc (same_id_loops (def_id d) (children inner)))
                               [SegmentChild s] # inner # below)))))"

text \<open>
  Modelled from the spec: the builder over the lazy segment sequence; a tokenizer error
  ends the build, and at the end of the stream every open loop is closed (step 5).
\<close>

fun build_loops ::
  "loop_definition list \<Rightarrow> segment gen \<Rightarrow> nat \<Rightarrow> loop_node list \<Rightarrow> x12_error + loop_node list" where
  "build_loops grammar Stop pos stack = Inr (pop_loops (length stack - 1) stack)"
| "build_loops grammar (Raise e) pos stack = Inl e"
| "build_loops grammar (Yield s rest) pos stack =
     (case builder_step grammar stack pos s of
        Inl e \<Rightarrow> Inl e
      | Inr stack' \<Rightarrow> build_loops grammar rest (Suc pos) stack')"

text \<open>
  Modelled from the spec: a grammar that names a loop it does not define
  (UnsupportedGrammarError, section 7).
\<close>

definition undefined_reference :: "loop_definition list \<Rightarrow> string option" where
  "undefined_reference grammar =
     find (\<lambda>lid. lid \<notin> set (map def_id grammar))
       (concat (map (\<lambda>d. (case def_parent d of None \<Rightarrow> [] | Some p \<Rightarrow> [p]) @ child_ids d) grammar))"

definition build_tree :: "loop_definition list \<Rightarrow> segment gen \<Rightarrow> x12_error + loop_node" where
  "build_tree grammar segs =
     (case undefined_reference grammar of
        Some lid \<Rightarrow> Inl (UnsupportedGrammarError lid)
      | None \<Rightarrow>
          (case build_loops grammar segs 0 [LoopNode root_id 0 []] of
             Inl e \<Rightarrow> Inl e
           | Inr [] \<Rightarrow> Inr (LoopNode root_id 0 [])
           | Inr (r # rest) \<Rightarrow> Inr r))"

text \<open>
  Modelled from the spec: the pipeline Detector, Tokenizer, Builder, Query API of section
  2 behind the calls of the two scripts. \<open>max_len\<close> is the tokenizer's configurable
  maximum and \<open>grammar\<close> the loop-definition table.
\<close>

definition spec_reader :: "nat \<Rightarrow> segment x12reader" where
  "spec_reader max_len =
     \<lparr>X12Reader = (\<lambda>f. case detect_delimiters (header_of f) of
                         Inl e \<Rightarrow> Inl e
                       | Inr ds \<Rightarrow> Inr (tokenize ds max_len 0 [] f)),
      get_seg_id = seg_id,
      values_iterator = (\<lambda>s. map element_json (elements s))\<rparr>"

definition spec_context :: "nat \<Rightarrow> loop_definition list \<Rightarrow> (loop_node, loop_node) x12context" where
  "spec_context max_len grammar =
     \<lparr>X12ContextReader = (\<lambda>f. case detect_delimiters (header_of f) of
                                Inl e \<Rightarrow> Inl e
                              | Inr ds \<Rightarrow> build_tree grammar (tokenize ds max_len 0 [] f)),
      iter_segments = (\<lambda>root lid. gen_of_list (loopsOf root lid)),
      get_value = path_value,
      select = loopsOf\<rparr>"

text \<open>
  Modelled from the spec: the same pipeline behind an iteration that yields what the note
  at the filter of \<open>extract_claims_from_837p\<close> says \<open>iter_segments\<close> yields: the loops
  with the identifier and, one by one, the segments outside them, in file order. An entry
  is a child of the tree; a lone segment answers \<open>get_value\<close> for its own elements and
  has no loops under it.
\<close>

fun entries_of :: "string \<Rightarrow> loop_node \<Rightarrow> child list"
  and entries_of_child :: "string \<Rightarrow> child \<Rightarrow> child list" where
  "entries_of q (LoopNode lid occ cs) =
     (if lid = q then [LoopChild (LoopNode lid occ cs)]
      else concat (map (entries_of_child q) cs))"
| "entries_of_child q (SegmentChild s) = [SegmentChild s]"
| "entries_of_child q (LoopChild n) = entries_of q n"

fun entry_value :: "child \<Rightarrow> string \<Rightarrow> json" where
  "entry_value (LoopChild n) p = path_value n p"
| "entry_value (SegmentChild s) p = path_value (LoopNode [] 0 [SegmentChild s]) p"

fun entry_select :: "child \<Rightarrow> string \<Rightarrow> child list" where
  "entry_select (LoopChild n) q = map LoopChild (loopsOf n q)"
| "entry_select (SegmentChild s) q = []"

definition entry_context :: "nat \<Rightarrow> loop_definition list \<Rightarrow> (loop_node, child) x12context" where
  "entry_context max_len grammar =
     \<lparr>X12ContextReader = (\<lambda>f. case detect_delimiters (header_of f) of
                                Inl e \<Rightarrow> Inl e
                              | Inr ds \<Rightarrow> build_tree grammar (tokenize ds max_len 0 [] f)),
      iter_segments = (\<lambda>root q. gen_of_list (entries_of q root)),
      get_value = entry_value,
      select = entry_select\<rparr>"

text \<open>
  Modelled from the spec: the part of the 837P loop grammar the scripts' loops live in:
  billing provider (\<open>HL\<close> with level code 20), subscriber (\<open>HL\<close> with level code 22),
  claim (\<open>CLM\<close>) and service line (\<open>LX\<close>).
\<close>

definition grammar_837p :: "loop_definition list" where
  "grammar_837p =
     [\<lparr>def_id = ''2000A'', def_parent = None, trigger_segment = ''HL'',
       trigger_qualifier = Some (3, ''20''), min_occurs = 1, max_occurs = None,
       child_ids = [''2000B'']\<rparr>,
      \<lparr>def_id = ''2000B'', def_parent = Some ''2000A'', trigger_segment = ''HL'',
       trigger_qualifier = Some (3, ''22''), min_occurs = 1, max_occurs = None,
       child_ids = [''2300'']\<rparr>,
      \<lparr>def_id = ''2300'', def_parent = Some ''2000B'', trigger_segment = ''CLM'',
       trigger_qualifier = None, min_occurs = 1, max_occurs = Some 100,
       child_ids = [''2400'']\<rparr>,
      \<lparr>def_id = ''2400'', def_parent = Some ''2300'', trigger_segment = ''LX'',
       trigger_qualifier = None, min_occurs = 1, max_occurs = Some 50,
       child_ids = []\<rparr>]"

section \<open>What the properties speak of\<close>

text \<open>
  The positions, in the sequence the claim loop iterates over, of the nodes it keeps: those
  for which \<open>CLM01\<close> and \<open>CLM02\<close> are not both \<open>None\<close>.
\<close>

definition kept_indices :: "('c, 'n) x12context \<Rightarrow> 'n list \<Rightarrow> nat list" where
  "kept_indices L nodes =
     filter (\<lambda>k. \<not> (get_value L (nodes ! k) ''CLM01'' = JNull \<and>
                       get_value L (nodes ! k) ''CLM02'' = JNull))
       [0..<length nodes]"

text \<open>
  The shape of the output of section 6: a service-line record has the two keys
  \<open>procedure_code\<close> and \<open>line_charge\<close>, in that order and no other; a claim record
  has the three keys \<open>claim_id\<close>, \<open>total_charge\<close> and \<open>service_lines\<close>, and under
  \<open>service_lines\<close> a list of service-line records.
\<close>

fun is_service_line_record :: "json \<Rightarrow> bool" where
  "is_service_line_record (JObject kvs) = (map fst kvs = [''procedure_code'', ''line_charge''])"
| "is_service_line_record v = False"

fun is_claim_record :: "json \<Rightarrow> bool" where
  "is_claim_record (JObject kvs) =
     (map fst kvs = [''claim_id'', ''total_charge'', ''service_lines''] \<and>
      (case map_of kvs ''service_lines'' of
         Some (JArray lines) \<Rightarrow> list_all is_service_line_record lines
       | _ \<Rightarrow> False))"
| "is_claim_record v = False"

section \<open>Interchanges for the concrete runs\<close>

text \<open>
  An interchange header of 106 characters that declares \<open>*\<close>, \<open>:\<close> and \<open>~\<close>.
\<close>

definition isa_header :: string where
  "isa_header = ''ISA*00*          *00*          *ZZ*SENDER         *ZZ*RECEIVER       *250101*1200*^*00501*000000001*0*P*:~''"

text \<open>
  Three claim loops under one subscriber: \<open>A1\<close> without a total charge, one without
  either value, and \<open>B2\<close> with two service lines, the second without an \<open>SV1\<close>
  segment.
\<close>

definition edi_claims :: string where
  "edi_claims = isa_header @ ''HL*1**20*1~HL*2*1*22*0~CLM*A1~CLM~CLM*B2*75.50~LX*1~SV1*99213*75.50~LX*2~''"

definition world_claims :: world where
  "world_claims = \<lparr>files = [''claims.837'' \<mapsto> edi_claims], stdout = []\<rparr>"

text \<open>
  The loop tree of \<open>edi_claims\<close> under \<open>grammar_837p\<close>, and its third claim loop.
\<close>

definition tree_claims :: loop_node where
  "tree_claims =
     LoopNode ''root'' 0
       [SegmentChild
         \<lparr>seg_id = ''ISA'',
            elements =
              [Plain ''00'', Plain ''          '', Plain ''00'',
               Plain ''          '', Plain ''ZZ'',
               Plain ''SENDER         '', Plain ''ZZ'',
               Plain ''RECEIVER       '', Plain ''250101'', Plain ''1200'',
               Plain ''^'', Plain ''00501'', Plain ''000000001'',
               Plain ''0'', Plain ''P'', Composite [[], []]]\<rparr>,
        LoopChild
         (LoopNode ''2000A'' 1
           [SegmentChild
             \<lparr>seg_id = ''HL'',
                elements =
                  [Plain ''1'', Plain [], Plain ''20'', Plain ''1'']\<rparr>,
            LoopChild
             (LoopNode ''2000B'' 1
               [SegmentChild
                 \<lparr>seg_id = ''HL'',
                    elements =
                      [Plain ''2'', Plain ''1'', Plain ''22'',
                       Plain ''0'']\<rparr>,
                LoopChild
                 (LoopNode ''2300'' 1
                   [SegmentChild
                     \<lparr>seg_id = ''CLM'', elements = [Plain ''A1'']\<rparr>]),
                LoopChild
                 (LoopNode ''2300'' 2
                   [SegmentChild \<lparr>seg_id = ''CLM'', elements = []\<rparr>]),
                LoopChild
                 (LoopNode ''2300'' 3
                   [SegmentChild
                     \<lparr>seg_id = ''CLM'',
                        elements = [Plain ''B2'', Plain ''75.50'']\<rparr>,
                    LoopChild
                     (LoopNode ''2400'' 1
                       [SegmentChild
                         \<lparr>seg_id = ''LX'', elements = [Plain ''1'']\<rparr>,
                        SegmentChild
                         \<lparr>seg_id = ''SV1'',
                            elements =
                              [Plain ''99213'', Plain ''75.50'']\<rparr>]),
                    LoopChild
                     (LoopNode ''2400'' 2
                       [SegmentChild
                         \<lparr>seg_id = ''LX'',
                            elements = [Plain ''2'']\<rparr>])])])])]"

definition claim_b2 :: loop_node where
  "claim_b2 =
     LoopNode ''2300'' 3
       [SegmentChild \<lparr>seg_id = ''CLM'', elements = [Plain ''B2'', Plain ''75.50'']\<rparr>,
        LoopChild
          (LoopNode ''2400'' 1
             [SegmentChild \<lparr>seg_id = ''LX'', elements = [Plain ''1'']\<rparr>,
              SegmentChild \<lparr>seg_id = ''SV1'', elements = [Plain ''99213'', Plain ''75.50'']\<rparr>]),
        LoopChild
          (LoopNode ''2400'' 2
             [SegmentChild \<lparr>seg_id = ''LX'', elements = [Plain ''2'']\<rparr>])]"

text \<open>
  What makes the parse of a file content fail in \<open>extract_claims_from_837p\<close>: the
  error the reader raises when it is made or, once it is made, the error the iteration
  over the claim loops ends with.
\<close>

definition parse_failure :: "('c, 'n) x12context \<Rightarrow> string \<Rightarrow> x12_error option" where
  "parse_failure L f =
     (case X12ContextReader L f of
        Inl e \<Rightarrow> Some e
      | Inr ctx \<Rightarrow> gen_end (iter_segments L ctx ''2300''))"


text \<open>
  One claim loop, \<open>CLAIM001\<close> with total charge \<open>250.00\<close>, and its two service lines.
\<close>

definition edi_e2e :: string where
  "edi_e2e = isa_header @
     ''GS*HC*S*R*20250101*1200*1*X*005010X222A1~ST*837*0001*005010X222A1~'' @
     ''HL*1**20*1~HL*2*1*22*0~CLM*CLAIM001*250.00~'' @
     ''LX*1~SV1*99213*100.00~LX*2~SV1*99214*150.00~''"

definition world_e2e :: world where
  "world_e2e = \<lparr>files = [''e2e.837'' \<mapsto> edi_e2e], stdout = []\<rparr>"

text \<open>
  The loop tree of \<open>edi_e2e\<close> under \<open>grammar_837p\<close>, with its claim loop and the two
  service-line loops.
\<close>

definition line1_e2e :: loop_node where
  "line1_e2e =
     LoopNode ''2400'' 1
       [SegmentChild \<lparr>seg_id = ''LX'', elements = [Plain ''1'']\<rparr>,
        SegmentChild \<lparr>seg_id = ''SV1'', elements = [Plain ''99213'', Plain ''100.00'']\<rparr>]"

definition line2_e2e :: loop_node where
  "line2_e2e =
     LoopNode ''2400'' 2
       [SegmentChild \<lparr>seg_id = ''LX'', elements = [Plain ''2'']\<rparr>,
        SegmentChild \<lparr>seg_id = ''SV1'', elements = [Plain ''99214'', Plain ''150.00'']\<rparr>]"

definition claim_e2e :: loop_node where
  "claim_e2e =
     LoopNode ''2300'' 1
       [SegmentChild \<lparr>seg_id = ''CLM'', elements = [Plain ''CLAIM001'', Plain ''250.00'']\<rparr>,
        LoopChild line1_e2e, LoopChild line2_e2e]"

definition tree_e2e :: loop_node where
  "tree_e2e =
     LoopNode ''root'' 0
       [SegmentChild
          \<lparr>seg_id = ''ISA'',
           elements =
             [Plain ''00'', Plain ''          '', Plain ''00'', Plain ''          '',
              Plain ''ZZ'', Plain ''SENDER         '', Plain ''ZZ'', Plain ''RECEIVER       '',
              Plain ''250101'', Plain ''1200'', Plain ''^'', Plain ''00501'',
              Plain ''000000001'', Plain ''0'', Plain ''P'', Composite [[], []]]\<rparr>,
        SegmentChild
          \<lparr>seg_id = ''GS'',
           elements =
             [Plain ''HC'', Plain ''S'', Plain ''R'', Plain ''20250101'', Plain ''1200'',
              Plain ''1'', Plain ''X'', Plain ''005010X222A1'']\<rparr>,
        SegmentChild
          \<lparr>seg_id = ''ST'',
           elements = [Plain ''837'', Plain ''0001'', Plain ''005010X222A1'']\<rparr>,
        LoopChild
          (LoopNode ''2000A'' 1
             [SegmentChild
                \<lparr>seg_id = ''HL'', elements = [Plain ''1'', Plain [], Plain ''20'', Plain ''1'']\<rparr>,
              LoopChild
                (LoopNode ''2000B'' 1
                   [SegmentChild
                      \<lparr>seg_id = ''HL'',
                       elements = [Plain ''2'', Plain ''1'', Plain ''22'', Plain ''0'']\<rparr>,
                    LoopChild claim_e2e])])]"

text \<open>
  Four segments, and the sequence the tokenizer makes of them.
\<close>

definition edi_flat :: string where
  "edi_flat = isa_header @ ''ST*837*0001~CLM*C1*10.00~SE*3*0001~''"

definition world_flat :: world where
  "world_flat = \<lparr>files = [''flat.837'' \<mapsto> edi_flat], stdout = []\<rparr>"

definition segments_flat :: "segment gen" where
  "segments_flat =
     Yield \<lparr>seg_id = ''ISA'',
            elements =
              [Plain ''00'', Plain ''          '', Plain ''00'', Plain ''          '',
               Plain ''ZZ'', Plain ''SENDER         '', Plain ''ZZ'', Plain ''RECEIVER       '',
               Plain ''250101'', Plain ''1200'', Plain ''^'', Plain ''00501'',
               Plain ''000000001'', Plain ''0'', Plain ''P'', Composite [[], []]]\<rparr>
       (Yield \<lparr>seg_id = ''ST'', elements = [Plain ''837'', Plain ''0001'']\<rparr>
          (Yield \<lparr>seg_id = ''CLM'', elements = [Plain ''C1'', Plain ''10.00'']\<rparr>
             (Yield \<lparr>seg_id = ''SE'', elements = [Plain ''3'', Plain ''0001'']\<rparr> Stop)))"

text \<open>
  Three files that do not parse: the last segment of the first has no terminator, the
  header of the second is too short, and the header of the third declares \<open>*\<close> for both
  the element and the sub-element separator.
\<close>

definition edi_unterminated :: string where
  "edi_unterminated = isa_header @ ''HL*1**20*1~HL*2*1*22*0~CLM*A1*10.00~LX*1''"

definition edi_short_header :: string where
  "edi_short_header = ''ISA*00*          *00*          *ZZ*SENDER~''"

definition edi_same_separators :: string where
  "edi_same_separators =
     ''ISA*00*          *00*          *ZZ*SENDER         *ZZ*RECEIVER       *250101*1200*^*00501*000000001*0*P**~CLM*A1*10.00~''"

definition world_bad :: world where
  "world_bad =
     \<lparr>files = [''cut.837'' \<mapsto> edi_unterminated, ''short.837'' \<mapsto> edi_short_header,
               ''same.837'' \<mapsto> edi_same_separators],
      stdout = []\<rparr>"

text \<open>
  A file of three segments that end with a line feed, whose header is one character short:
  the sender field has fourteen characters, so the header is 105 wide.
\<close>

definition edi_narrow_header :: string where
  "edi_narrow_header =
     ''ISA*00*          *00*          *ZZ*SENDER        *ZZ*RECEIVER       *250101*1200*^*00501*000000001*0*P*:'' @
     [CHR 0x0A] @ ''GS*HC*S*R*20250101*1200*1*X*005010X222A1'' @
     [CHR 0x0A] @ ''ST*837*0001*005010X222A1'' @ [CHR 0x0A]"

definition world_narrow :: world where
  "world_narrow = \<lparr>files = [''narrow.837'' \<mapsto> edi_narrow_header], stdout = []\<rparr>"



section \<open>The loops as list functions\<close>
lemma service_lines_loop_eq:
  "service_lines_loop L sls acc =
     acc @ map (\<lambda>s. JObject [(''procedure_code'', get_value L s ''SV101''),
                                (''line_charge'', get_value L s ''SV102'')]) sls"
  by (induction sls arbitrary: acc) simp_all

lemma claims_loop_eq:
  "gen_end g = None \<Longrightarrow>
   claims_loop L g acc =
     Inr (acc @ List.map_filter
            (\<lambda>n. if get_value L n ''CLM01'' = JNull \<and> get_value L n ''CLM02'' = JNull then None
                  else Some (JObject [(''claim_id'', get_value L n ''CLM01''),
                                      (''total_charge'', get_value L n ''CLM02''),
                                      (''service_lines'',
                                       JArray (service_lines_loop L (select L n ''2400'') []))]))
            (gen_list g))"
  by (induction g arbitrary: acc) (simp_all add: List.map_filter_simps Let_def)

lemma claims_loop_raise:
  "gen_end g = Some e \<Longrightarrow> claims_loop L g acc = Inl (X12Error e)"
  by (induction g arbitrary: acc) (simp_all add: Let_def)

lemma map_filter_as_map:
  "List.map_filter (\<lambda>n. if P n then None else Some (r n)) xs = map r (filter (\<lambda>n. \<not> P n) xs)"
  by (induction xs) (simp_all add: List.map_filter_simps)

lemma claims_loop_map:
  "gen_end g = None \<Longrightarrow>
   claims_loop L g acc =
     Inr (acc @ map (\<lambda>n. JObject [(''claim_id'', get_value L n ''CLM01''),
                                    (''total_charge'', get_value L n ''CLM02''),
                                    (''service_lines'',
                                     JArray (map (\<lambda>s. JObject [(''procedure_code'', get_value L s ''SV101''),
                                                                   (''line_charge'', get_value L s ''SV102'')])
                                                (select L n ''2400'')))])
            (filter (\<lambda>n. \<not> (get_value L n ''CLM01'' = JNull \<and> get_value L n ''CLM02'' = JNull))
               (gen_list g)))"
  by (simp add: claims_loop_eq map_filter_as_map service_lines_loop_eq)

lemma claims_loop_Inr_end:
  assumes "claims_loop L g acc = Inr claims"
  shows "gen_end g = None"
proof (cases "gen_end g")
  case None
  then show ?thesis .
next
  case (Some e)
  then have "claims_loop L g acc = Inl (X12Error e)"
    by (rule claims_loop_raise)
  with assms show ?thesis
    by simp
qed

lemma filter_as_indices:
  "filter P xs = map ((!) xs) (filter (\<lambda>k. P (xs ! k)) [0..<length xs])"
proof (induction xs rule: rev_induct)
  case Nil
  show ?case by simp
next
  case (snoc x xs)
  have a: "filter (\<lambda>k. P ((xs @ [x]) ! k)) [0..<length xs] = filter (\<lambda>k. P (xs ! k)) [0..<length xs]"
    by (rule filter_cong) (auto simp: nth_append)
  have b: "map ((!) (xs @ [x])) (filter (\<lambda>k. P (xs ! k)) [0..<length xs])
             = map ((!) xs) (filter (\<lambda>k. P (xs ! k)) [0..<length xs])"
    by (rule map_cong) (auto simp: nth_append)
  show ?case
    using snoc by (simp add: a b)
qed

lemma map_filter_indices:
  "map r (filter P xs) = map (\<lambda>k. r (xs ! k)) (filter (\<lambda>k. P (xs ! k)) [0..<length xs])"
proof -
  have "map r (filter P xs) = map r (map ((!) xs) (filter (\<lambda>k. P (xs ! k)) [0..<length xs]))"
    by (rule arg_cong [where f = "map r"]) (rule filter_as_indices)
  then show ?thesis
    by (simp add: o_def)
qed

lemma map_by_index: "map g xs = map (\<lambda>j. g (xs ! j)) [0..<length xs]"
  by (rule nth_equalityI) simp_all

lemma list_all_service_lines:
  "list_all is_service_line_record
     (map (\<lambda>s. JObject [(''procedure_code'', a s), (''line_charge'', b s)]) sls)"
  by (induction sls) simp_all

lemma segments_loop_eq:
  "gen_end g = None \<Longrightarrow>
   segments_loop R g acc =
     Inr (acc @ map (\<lambda>seg. JObject [(''segment_id'', JString (get_seg_id R seg)),
                                      (''elements'', JArray (values_iterator R seg))])
                  (gen_list g))"
  by (induction g arbitrary: acc) (simp_all add: Let_def)

lemma segments_loop_raise:
  "gen_end g = Some e \<Longrightarrow> segments_loop R g acc = Inl (X12Error e)"
  by (induction g arbitrary: acc) (simp_all add: Let_def)






section \<open>The concrete runs\<close>
lemma parse_edi_claims:
  "X12ContextReader (spec_context 200 grammar_837p) edi_claims = Inr tree_claims"
  by code_simp

lemma iter_edi_claims:
  "gen_end (iter_segments (spec_context 200 grammar_837p) tree_claims ''2300'') = None"
  by code_simp

lemma file_world_claims: "files world_claims ''claims.837'' = Some edi_claims"
  by (simp add: world_claims_def)

lemma extract_edi_claims:
  "extract_claims_from_837p (spec_context 200 grammar_837p) world_claims ''claims.837'' =
     Inr [JObject [(''claim_id'', JString ''A1''), (''total_charge'', JNull),
                   (''service_lines'', JArray [])],
          JObject [(''claim_id'', JString ''B2''), (''total_charge'', JString ''75.50''),
                   (''service_lines'',
                    JArray [JObject [(''procedure_code'', JString ''99213''),
                                     (''line_charge'', JString ''75.50'')],
                            JObject [(''procedure_code'', JNull), (''line_charge'', JNull)]])]]"
  by code_simp

lemma parse_entries_e2e:
  "X12ContextReader (entry_context 200 grammar_837p) edi_e2e = Inr tree_e2e"
  by code_simp

lemma read_edi_flat: "X12Reader (spec_reader 200) edi_flat = Inr segments_flat"
  by code_simp


section \<open>Claim extraction\<close>

text \<open>
  C1. When the file is there, the reader accepts it and the iteration over the claim loops
  ends without raising, the result has, for the nodes in the order the iteration yields
  them, no record for a node whose claim identifier and total charge are both \<open>None\<close>
  and otherwise one record with the two values as read: a value that is absent is
  \<open>JNull\<close> in the record.
\<close>

theorem claims_kept_unless_both_absent:
  assumes "files w path = Some f"
    and "X12ContextReader L f = Inr ctx"
    and "gen_end (iter_segments L ctx ''2300'') = None"
  shows "extract_claims_from_837p L w path =
     Inr (List.map_filter
            (\<lambda>n. if get_value L n ''CLM01'' = JNull \<and> get_value L n ''CLM02'' = JNull then None
                  else Some (JObject [(''claim_id'', get_value L n ''CLM01''),
                                      (''total_charge'', get_value L n ''CLM02''),
                                      (''service_lines'',
                                       JArray (service_lines_loop L (select L n ''2400'') []))]))
            (gen_list (iter_segments L ctx ''2300'')))"
  using assms by (simp add: extract_claims_from_837p_def claims_loop_eq)

theorem claims_kept_unless_both_absent_witness:
  "extract_claims_from_837p (spec_context 200 grammar_837p) world_claims ''claims.837'' =
     Inr [JObject [(''claim_id'', JString ''A1''), (''total_charge'', JNull),
                   (''service_lines'', JArray [])],
          JObject [(''claim_id'', JString ''B2''), (''total_charge'', JString ''75.50''),
                   (''service_lines'',
                    JArray [JObject [(''procedure_code'', JString ''99213''),
                                     (''line_charge'', JString ''75.50'')],
                            JObject [(''procedure_code'', JNull), (''line_charge'', JNull)]])]]"
proof -
  have f: "files world_claims ''claims.837'' = Some edi_claims"
    by (simp add: world_claims_def)
  have e: "gen_end (iter_segments (spec_context 200 grammar_837p) tree_claims ''2300'') = None"
    by code_simp
  show ?thesis
    by (subst claims_kept_unless_both_absent [OF f parse_edi_claims e]) code_simp
qed

text \<open>
  C3. Under the same conditions, every node the iteration yields that is kept (one of its
  two values is there) has its record in the result, and the \<open>service_lines\<close> of that
  record holds one record for every service-line loop that \<open>select("2400")\<close> gives, with
  the procedure code and the line charge as read, \<open>JNull\<close> when absent: no service line
  is left out.
\<close>

theorem service_lines_never_dropped:
  assumes "files w path = Some f"
    and "X12ContextReader L f = Inr ctx"
    and "gen_end (iter_segments L ctx ''2300'') = None"
    and "n \<in> set (gen_list (iter_segments L ctx ''2300''))"
    and "get_value L n ''CLM01'' \<noteq> JNull \<or> get_value L n ''CLM02'' \<noteq> JNull"
  shows "\<exists>claims. extract_claims_from_837p L w path = Inr claims \<and>
           JObject [(''claim_id'', get_value L n ''CLM01''),
                    (''total_charge'', get_value L n ''CLM02''),
                    (''service_lines'',
                     JArray (map (\<lambda>s. JObject [(''procedure_code'', get_value L s ''SV101''),
                                                   (''line_charge'', get_value L s ''SV102'')])
                                (select L n ''2400'')))] \<in> set claims"
proof -
  have "n \<in> set (filter (\<lambda>n. \<not> (get_value L n ''CLM01'' = JNull \<and> get_value L n ''CLM02'' = JNull))
                    (gen_list (iter_segments L ctx ''2300'')))"
    using assms(4,5) by auto
  then show ?thesis
    using assms(1,2,3) by (simp add: extract_claims_from_837p_def claims_loop_map)
qed

theorem service_lines_never_dropped_witness:
  "\<exists>claims. extract_claims_from_837p (spec_context 200 grammar_837p) world_claims ''claims.837'' = Inr claims \<and>
     JObject [(''claim_id'', JString ''B2''), (''total_charge'', JString ''75.50''),
              (''service_lines'',
               JArray [JObject [(''procedure_code'', JString ''99213''),
                                (''line_charge'', JString ''75.50'')],
                       JObject [(''procedure_code'', JNull), (''line_charge'', JNull)]])] \<in> set claims"
proof -
  have m: "claim_b2 \<in> set (gen_list (iter_segments (spec_context 200 grammar_837p) tree_claims ''2300''))"
    by code_simp
  have k: "get_value (spec_context 200 grammar_837p) claim_b2 ''CLM01'' \<noteq> JNull \<or>
           get_value (spec_context 200 grammar_837p) claim_b2 ''CLM02'' \<noteq> JNull"
    by code_simp
  have v: "JObject [(''claim_id'', get_value (spec_context 200 grammar_837p) claim_b2 ''CLM01''),
                    (''total_charge'', get_value (spec_context 200 grammar_837p) claim_b2 ''CLM02''),
                    (''service_lines'',
                     JArray (map (\<lambda>s. JObject [(''procedure_code'', get_value (spec_context 200 grammar_837p) s ''SV101''),
                                                   (''line_charge'', get_value (spec_context 200 grammar_837p) s ''SV102'')])
                                (select (spec_context 200 grammar_837p) claim_b2 ''2400'')))]
         = JObject [(''claim_id'', JString ''B2''), (''total_charge'', JString ''75.50''),
              (''service_lines'',
               JArray [JObject [(''procedure_code'', JString ''99213''),
                                (''line_charge'', JString ''75.50'')],
                       JObject [(''procedure_code'', JNull), (''line_charge'', JNull)]])]"
    by code_simp
  show ?thesis
    using service_lines_never_dropped [OF file_world_claims parse_edi_claims iter_edi_claims m k]
    unfolding v .
qed

text \<open>
  C4. Under the same conditions, the positions of the kept nodes are strictly increasing and
  the record at position \<open>i\<close> of the result is the record of the \<open>i\<close>-th kept node;
  inside a record the \<open>j\<close>-th service-line record is that of the \<open>j\<close>-th service-line
  loop. The output is in file order at both levels.
\<close>

theorem extraction_preserves_file_order:
  assumes "files w path = Some f"
    and "X12ContextReader L f = Inr ctx"
    and "gen_end (iter_segments L ctx ''2300'') = None"
    and "nodes = gen_list (iter_segments L ctx ''2300'')"
  shows "sorted_wrt (<) (kept_indices L nodes) \<and>
         extract_claims_from_837p L w path =
           Inr (map (\<lambda>k. JObject [(''claim_id'', get_value L (nodes ! k) ''CLM01''),
                                    (''total_charge'', get_value L (nodes ! k) ''CLM02''),
                                    (''service_lines'',
                                     JArray (map (\<lambda>j. JObject [(''procedure_code'', get_value L (select L (nodes ! k) ''2400'' ! j) ''SV101''),
                                                                   (''line_charge'', get_value L (select L (nodes ! k) ''2400'' ! j) ''SV102'')])
                                                [0..<length (select L (nodes ! k) ''2400'')]))])
                    (kept_indices L nodes))"
proof -
  let ?line = "\<lambda>s. JObject [(''procedure_code'', get_value L s ''SV101''),
                              (''line_charge'', get_value L s ''SV102'')]"
  let ?claim = "\<lambda>n. JObject [(''claim_id'', get_value L n ''CLM01''),
                                (''total_charge'', get_value L n ''CLM02''),
                                (''service_lines'', JArray (map ?line (select L n ''2400'')))]"
  let ?kept = "\<lambda>n. \<not> (get_value L n ''CLM01'' = JNull \<and> get_value L n ''CLM02'' = JNull)"
  have sorted: "sorted_wrt (<) (kept_indices L nodes)"
    by (simp add: kept_indices_def sorted_wrt_filter)
  have "extract_claims_from_837p L w path = Inr (map ?claim (filter ?kept nodes))"
    using assms by (simp add: extract_claims_from_837p_def claims_loop_map)
  also have "map ?claim (filter ?kept nodes) = map (\<lambda>k. ?claim (nodes ! k)) (kept_indices L nodes)"
    unfolding kept_indices_def by (rule map_filter_indices)
  also have "(\<lambda>k. ?claim (nodes ! k)) =
     (\<lambda>k. JObject [(''claim_id'', get_value L (nodes ! k) ''CLM01''),
                    (''total_charge'', get_value L (nodes ! k) ''CLM02''),
                    (''service_lines'',
                     JArray (map (\<lambda>j. ?line (select L (nodes ! k) ''2400'' ! j))
                                [0..<length (select L (nodes ! k) ''2400'')]))])"
    using map_by_index [of ?line] by simp
  finally show ?thesis
    using sorted by simp
qed

theorem extraction_preserves_file_order_witness:
  "kept_indices (spec_context 200 grammar_837p) (loopsOf tree_claims ''2300'') = [0, 2] \<and>
   extract_claims_from_837p (spec_context 200 grammar_837p) world_claims ''claims.837'' =
     Inr [JObject [(''claim_id'', JString ''A1''), (''total_charge'', JNull),
                   (''service_lines'', JArray [])],
          JObject [(''claim_id'', JString ''B2''), (''total_charge'', JString ''75.50''),
                   (''service_lines'',
                    JArray [JObject [(''procedure_code'', JString ''99213''),
                                     (''line_charge'', JString ''75.50'')],
                            JObject [(''procedure_code'', JNull), (''line_charge'', JNull)]])]]"
proof -
  have n: "loopsOf tree_claims ''2300'' =
           gen_list (iter_segments (spec_context 200 grammar_837p) tree_claims ''2300'')"
    by code_simp
  show ?thesis
    by (subst conjunct2 [OF extraction_preserves_file_order
              [OF file_world_claims parse_edi_claims iter_edi_claims n]])
       code_simp
qed

text \<open>
  C10. Every record of a list that \<open>extract_claims_from_837p\<close> returns has exactly the
  keys \<open>claim_id\<close>, \<open>total_charge\<close> and \<open>service_lines\<close>; \<open>service_lines\<close> is a
  list, never \<open>JNull\<close>, and each of its entries has exactly the keys
  \<open>procedure_code\<close> and \<open>line_charge\<close>.
\<close>

theorem claim_records_shape:
  assumes "extract_claims_from_837p L w path = Inr claims"
  shows "list_all is_claim_record claims"
proof -
  let ?line = "\<lambda>s. JObject [(''procedure_code'', get_value L s ''SV101''),
                              (''line_charge'', get_value L s ''SV102'')]"
  let ?claim = "\<lambda>n. JObject [(''claim_id'', get_value L n ''CLM01''),
                                (''total_charge'', get_value L n ''CLM02''),
                                (''service_lines'', JArray (map ?line (select L n ''2400'')))]"
  from assms obtain ctx where run: "claims_loop L (iter_segments L ctx ''2300'') [] = Inr claims"
    by (auto simp: extract_claims_from_837p_def split: option.splits sum.splits)
  then have "gen_end (iter_segments L ctx ''2300'') = None"
    by (rule claims_loop_Inr_end)
  with run have "claims = map ?claim
      (filter (\<lambda>n. \<not> (get_value L n ''CLM01'' = JNull \<and> get_value L n ''CLM02'' = JNull))
         (gen_list (iter_segments L ctx ''2300'')))"
    by (simp add: claims_loop_map)
  then obtain nodes where claims: "claims = map ?claim nodes" ..
  have "is_claim_record (?claim n)" for n
    by (simp add: list_all_service_lines)
  then show ?thesis
    unfolding claims by (induction nodes) simp_all
qed

theorem claim_records_shape_witness:
  "list_all is_claim_record
     [JObject [(''claim_id'', JString ''A1''), (''total_charge'', JNull),
               (''service_lines'', JArray [])],
      JObject [(''claim_id'', JString ''B2''), (''total_charge'', JString ''75.50''),
               (''service_lines'',
                JArray [JObject [(''procedure_code'', JString ''99213''),
                                 (''line_charge'', JString ''75.50'')],
                        JObject [(''procedure_code'', JNull), (''line_charge'', JNull)]])]]"
  by (rule claim_records_shape [OF extract_edi_claims])

text \<open>
  C6. The input has one claim loop: among the entries the iteration yields, whatever else
  it yields, the one that passes the filter is a node with claim identifier
  \<open>CLAIM001\<close> and total charge \<open>250.00\<close>, and under it \<open>select("2400")\<close> gives two
  service-line loops with (\<open>99213\<close>, \<open>100.00\<close>) and (\<open>99214\<close>, \<open>150.00\<close>). Then the
  result is exactly one claim object whose \<open>service_lines\<close> has the two records in that
  order, every value the string that was read. The concrete run starts from the text of an
  interchange whose header declares \<open>*\<close>, \<open>:\<close> and \<open>~\<close>, and its iteration yields five
  segments before the claim loop.
\<close>

theorem end_to_end_one_claim_two_lines:
  assumes "files w path = Some f"
    and "X12ContextReader L f = Inr ctx"
    and "gen_end (iter_segments L ctx ''2300'') = None"
    and "filter (\<lambda>n. \<not> (get_value L n ''CLM01'' = JNull \<and> get_value L n ''CLM02'' = JNull))
           (gen_list (iter_segments L ctx ''2300'')) = [c]"
    and "get_value L c ''CLM01'' = JString ''CLAIM001''"
    and "get_value L c ''CLM02'' = JString ''250.00''"
    and "select L c ''2400'' = [s1, s2]"
    and "get_value L s1 ''SV101'' = JString ''99213''"
    and "get_value L s1 ''SV102'' = JString ''100.00''"
    and "get_value L s2 ''SV101'' = JString ''99214''"
    and "get_value L s2 ''SV102'' = JString ''150.00''"
  shows "extract_claims_from_837p L w path =
     Inr [JObject [(''claim_id'', JString ''CLAIM001''), (''total_charge'', JString ''250.00''),
                   (''service_lines'',
                    JArray [JObject [(''procedure_code'', JString ''99213''),
                                     (''line_charge'', JString ''100.00'')],
                            JObject [(''procedure_code'', JString ''99214''),
                                     (''line_charge'', JString ''150.00'')]])]]"
proof -
  let ?line = "\<lambda>s. JObject [(''procedure_code'', get_value L s ''SV101''),
                              (''line_charge'', get_value L s ''SV102'')]"
  let ?claim = "\<lambda>n. JObject [(''claim_id'', get_value L n ''CLM01''),
                               (''total_charge'', get_value L n ''CLM02''),
                               (''service_lines'', JArray (map ?line (select L n ''2400'')))]"
  have "extract_claims_from_837p L w path = claims_loop L (iter_segments L ctx ''2300'') []"
    using assms(1,2) by (simp add: extract_claims_from_837p_def)
  also have "\<dots> =
      Inr ([] @ map ?claim
             (filter (\<lambda>n. \<not> (get_value L n ''CLM01'' = JNull \<and> get_value L n ''CLM02'' = JNull))
                (gen_list (iter_segments L ctx ''2300''))))"
    by (rule claims_loop_map [OF assms(3)])
  also have "\<dots> = Inr (map ?claim [c])"
    by (simp only: assms(4) append_Nil)
  finally show ?thesis
    by (simp add: assms(5-11))
qed

theorem end_to_end_one_claim_two_lines_witness:
  "detect_delimiters (header_of edi_e2e) =
     Inr \<lparr>segment_terminator = CHR ''~'', element_separator = CHR ''*'',
          subelement_separator = CHR '':'', repetition_separator = None\<rparr> \<and>
   length (gen_list (iter_segments (entry_context 200 grammar_837p) tree_e2e ''2300'')) = 6 \<and>
   extract_claims_from_837p (entry_context 200 grammar_837p) world_e2e ''e2e.837'' =
     Inr [JObject [(''claim_id'', JString ''CLAIM001''), (''total_charge'', JString ''250.00''),
                   (''service_lines'',
                    JArray [JObject [(''procedure_code'', JString ''99213''),
                                     (''line_charge'', JString ''100.00'')],
                            JObject [(''procedure_code'', JString ''99214''),
                                     (''line_charge'', JString ''150.00'')]])]]"
proof -
  let ?L = "entry_context 200 grammar_837p"
  have d: "detect_delimiters (header_of edi_e2e) =
     Inr \<lparr>segment_terminator = CHR ''~'', element_separator = CHR ''*'',
          subelement_separator = CHR '':'', repetition_separator = None\<rparr>"
    by code_simp
  have n: "length (gen_list (iter_segments ?L tree_e2e ''2300'')) = 6"
    by code_simp
  have f: "files world_e2e ''e2e.837'' = Some edi_e2e"
    by (simp add: world_e2e_def)
  have e: "gen_end (iter_segments ?L tree_e2e ''2300'') = None"
    by code_simp
  have k: "filter (\<lambda>n. \<not> (get_value ?L n ''CLM01'' = JNull \<and> get_value ?L n ''CLM02'' = JNull))
             (gen_list (iter_segments ?L tree_e2e ''2300'')) = [LoopChild claim_e2e]"
    by code_simp
  have c1: "get_value ?L (LoopChild claim_e2e) ''CLM01'' = JString ''CLAIM001''"
    by code_simp
  have c2: "get_value ?L (LoopChild claim_e2e) ''CLM02'' = JString ''250.00''"
    by code_simp
  have s: "select ?L (LoopChild claim_e2e) ''2400'' = [LoopChild line1_e2e, LoopChild line2_e2e]"
    by code_simp
  have p1: "get_value ?L (LoopChild line1_e2e) ''SV101'' = JString ''99213''"
    by code_simp
  have q1: "get_value ?L (LoopChild line1_e2e) ''SV102'' = JString ''100.00''"
    by code_simp
  have p2: "get_value ?L (LoopChild line2_e2e) ''SV101'' = JString ''99214''"
    by code_simp
  have q2: "get_value ?L (LoopChild line2_e2e) ''SV102'' = JString ''150.00''"
    by code_simp
  show ?thesis
    by (intro conjI d n
          end_to_end_one_claim_two_lines [OF f parse_entries_e2e e k c1 c2 s p1 q1 p2 q2])
qed

section \<open>Errors\<close>

text \<open>
  C7. When the reader raises as it is made, or the iteration over the claim loops raises
  after any number of nodes, \<open>extract_claims_from_837p\<close> returns no list at all: the
  error leaves the function. Whenever the function raises, the script ends with status 1
  and the world as it was: no output file and nothing on standard output.
\<close>

theorem parse_error_no_partial_output:
  "(files w input = Some f \<and> parse_failure L f = Some e \<longrightarrow>
      extract_claims_from_837p L w input = Inl (X12Error e)) \<and>
   (extract_claims_from_837p L w input = Inl err \<longrightarrow>
      claims_main L dumps w input output = (1, w))"
proof (intro conjI impI)
  assume h: "files w input = Some f \<and> parse_failure L f = Some e"
  show "extract_claims_from_837p L w input = Inl (X12Error e)"
  proof (cases "X12ContextReader L f")
    case (Inl e')
    with h show ?thesis
      by (simp add: extract_claims_from_837p_def parse_failure_def)
  next
    case (Inr ctx)
    with h have "gen_end (iter_segments L ctx ''2300'') = Some e"
      by (simp add: parse_failure_def)
    then have "claims_loop L (iter_segments L ctx ''2300'') [] = Inl (X12Error e)"
      by (rule claims_loop_raise)
    with Inr h show ?thesis
      by (simp add: extract_claims_from_837p_def)
  qed
next
  assume "extract_claims_from_837p L w input = Inl err"
  then show "claims_main L dumps w input output = (1, w)"
    by (simp add: claims_main_def)
qed

theorem parse_error_no_partial_output_witness:
  "extract_claims_from_837p (spec_context 200 grammar_837p) world_bad ''cut.837'' =
     Inl (X12Error (TokenizeError 142)) \<and>
   claims_main (spec_context 200 grammar_837p) (\<lambda>j. []) world_bad ''cut.837'' (Some ''claims.json'') =
     (1, world_bad)"
proof -
  let ?L = "spec_context 200 grammar_837p"
  note t = parse_error_no_partial_output
      [of world_bad "''cut.837''" edi_unterminated ?L "TokenizeError 142"
          "X12Error (TokenizeError 142)" "\<lambda>j. []" "Some ''claims.json''"]
  have f: "files world_bad ''cut.837'' = Some edi_unterminated"
    by (simp add: world_bad_def)
  have p: "parse_failure ?L edi_unterminated = Some (TokenizeError 142)"
    by code_simp
  have a: "extract_claims_from_837p ?L world_bad ''cut.837'' = Inl (X12Error (TokenizeError 142))"
    by (rule mp [OF conjunct1 [OF t] conjI [OF f p]])
  have b: "claims_main ?L (\<lambda>j. []) world_bad ''cut.837'' (Some ''claims.json'') = (1, world_bad)"
    by (rule mp [OF conjunct2 [OF t] a])
  show ?thesis
    by (rule conjI [OF a b])
qed

text \<open>
  C8. With the Delimiter Detector of section 4.1 behind \<open>X12Reader\<close>: when the header
  segment of the file, with the extent it has there, has not the fixed width, or when it
  declares the same character for two separators, the reader fails with
  MalformedHeaderError; \<open>x12_to_flat_json\<close> raises its \<open>RuntimeError\<close> for that error,
  the script ends with status 1, and the world is as it was: no output is written. The
  concrete runs are a file that ends inside its header, a header with equal separators,
  and a header 105 wide at the start of a longer file.
\<close>

theorem malformed_header_no_output:
  assumes "files w input = Some f"
    and "length (header_of f) \<noteq> header_width \<or> separators_coincide (header_of f)"
  shows "X12Reader (spec_reader max_len) f = Inl MalformedHeaderError \<and>
         x12_to_flat_json (spec_reader max_len) w input = Inl (RuntimeError input MalformedHeaderError) \<and>
         flat_main (spec_reader max_len) dumps w input output = (1, w)"
proof -
  from assms(2) have "detect_delimiters (header_of f) = Inl MalformedHeaderError"
    by (auto simp: detect_delimiters_def)
  then have reader: "X12Reader (spec_reader max_len) f = Inl MalformedHeaderError"
    by (simp add: spec_reader_def)
  with assms(1) have "x12_to_flat_json (spec_reader max_len) w input = Inl (RuntimeError input MalformedHeaderError)"
    by (simp add: x12_to_flat_json_def)
  with reader show ?thesis
    by (simp add: flat_main_def)
qed

theorem malformed_header_no_output_witness:
  "x12_to_flat_json (spec_reader 200) world_bad ''short.837'' =
     Inl (RuntimeError ''short.837'' MalformedHeaderError) \<and>
   flat_main (spec_reader 200) (\<lambda>j. []) world_bad ''short.837'' (Some ''flat.json'') = (1, world_bad) \<and>
   x12_to_flat_json (spec_reader 200) world_bad ''same.837'' =
     Inl (RuntimeError ''same.837'' MalformedHeaderError) \<and>
   flat_main (spec_reader 200) (\<lambda>j. []) world_bad ''same.837'' (Some ''flat.json'') = (1, world_bad) \<and>
   106 < length edi_narrow_header \<and>
   length (header_of edi_narrow_header) = 105 \<and>
   x12_to_flat_json (spec_reader 200) world_narrow ''narrow.837'' =
     Inl (RuntimeError ''narrow.837'' MalformedHeaderError) \<and>
   flat_main (spec_reader 200) (\<lambda>j. []) world_narrow ''narrow.837'' (Some ''flat.json'') =
     (1, world_narrow)"
proof -
  have f1: "files world_bad ''short.837'' = Some edi_short_header"
    by (simp add: world_bad_def)
  have h1: "length (header_of edi_short_header) \<noteq> header_width \<or>
            separators_coincide (header_of edi_short_header)"
    by code_simp
  have f2: "files world_bad ''same.837'' = Some edi_same_separators"
    by (simp add: world_bad_def)
  have h2: "length (header_of edi_same_separators) \<noteq> header_width \<or>
            separators_coincide (header_of edi_same_separators)"
    by code_simp
  have f3: "files world_narrow ''narrow.837'' = Some edi_narrow_header"
    by (simp add: world_narrow_def)
  have h3: "length (header_of edi_narrow_header) \<noteq> header_width \<or>
            separators_coincide (header_of edi_narrow_header)"
    by code_simp
  have l3: "106 < length edi_narrow_header"
    by code_simp
  have w3: "length (header_of edi_narrow_header) = 105"
    by code_simp
  note t1 = malformed_header_no_output [OF f1 h1, of 200 "\<lambda>j. []" "Some ''flat.json''"]
  note t2 = malformed_header_no_output [OF f2 h2, of 200 "\<lambda>j. []" "Some ''flat.json''"]
  note t3 = malformed_header_no_output [OF f3 h3, of 200 "\<lambda>j. []" "Some ''flat.json''"]
  show ?thesis
    by (intro conjI l3 w3
          conjunct1 [OF conjunct2 [OF t1]] conjunct2 [OF conjunct2 [OF t1]]
          conjunct1 [OF conjunct2 [OF t2]] conjunct2 [OF conjunct2 [OF t2]]
          conjunct1 [OF conjunct2 [OF t3]] conjunct2 [OF conjunct2 [OF t3]])
qed

section \<open>The flat dump\<close>

text \<open>
  C2. When the file is there, the reader accepts it and the segment sequence ends without
  raising, the \<open>segments\<close> list of the flat dump has one entry per segment of the
  sequence, in its order: the entry at a position holds the identifier and the elements of
  the segment at that position, and the list is as long as the sequence.
\<close>

theorem flat_dump_segments_in_order:
  assumes "files w path = Some f"
    and "X12Reader R f = Inr reader"
    and "gen_end reader = None"
  shows "x12_to_flat_json R w path =
           Inr (JObject [(''file'', JString path),
                         (''segments'',
                          JArray (map (\<lambda>seg. JObject [(''segment_id'', JString (get_seg_id R seg)),
                                                         (''elements'', JArray (values_iterator R seg))])
                                     (gen_list reader)))]) \<and>
         length (map (\<lambda>seg. JObject [(''segment_id'', JString (get_seg_id R seg)),
                                       (''elements'', JArray (values_iterator R seg))])
                   (gen_list reader)) = length (gen_list reader)"
  using assms by (simp add: x12_to_flat_json_def segments_loop_eq)

theorem flat_dump_segments_in_order_witness:
  "x12_to_flat_json (spec_reader 200) world_flat ''flat.837'' =
     Inr (JObject
            [(''file'', JString ''flat.837''),
             (''segments'',
              JArray
                [JObject
                   [(''segment_id'', JString ''ISA''),
                    (''elements'',
                     JArray
                       [JString ''00'', JString ''          '', JString ''00'',
                        JString ''          '', JString ''ZZ'', JString ''SENDER         '',
                        JString ''ZZ'', JString ''RECEIVER       '', JString ''250101'',
                        JString ''1200'', JString ''^'', JString ''00501'',
                        JString ''000000001'', JString ''0'', JString ''P'',
                        JArray [JString [], JString []]])],
                 JObject
                   [(''segment_id'', JString ''ST''),
                    (''elements'', JArray [JString ''837'', JString ''0001''])],
                 JObject
                   [(''segment_id'', JString ''CLM''),
                    (''elements'', JArray [JString ''C1'', JString ''10.00''])],
                 JObject
                   [(''segment_id'', JString ''SE''),
                    (''elements'', JArray [JString ''3'', JString ''0001''])]])]) \<and>
   length (gen_list segments_flat) = 4"
proof -
  have f: "files world_flat ''flat.837'' = Some edi_flat"
    by (simp add: world_flat_def)
  have e: "gen_end segments_flat = None"
    by code_simp
  show ?thesis
    by (subst conjunct1 [OF flat_dump_segments_in_order [OF f read_edi_flat e]]) code_simp
qed

section \<open>The query interface\<close>



end
